theory Spec2Isabelle
  imports Complex_Main "HOL-Library.Sublist"
begin

section \<open>JavaScript values\<close>

text \<open>
  The relevance code of ResumeRAG lives in three route modules: the search route
  (\<open>calculateSimilarity\<close>, \<open>extractSnippets\<close>, \<open>router.post('/')\<close>), the jobs route
  (\<open>router.post('/:id/match')\<close>) and the resumes route (\<open>router.get('/:id')\<close>).

  A JavaScript string is a sequence of UTF-16 code units. The model uses \<^typ>\<open>char\<close> for
  one code unit in the range U+0000..U+00FF, so \<open>length\<close> is the string's \<open>.length\<close>;
  texts with code units above U+00FF are outside the model.

  A JavaScript number that the scoring code produces is a quotient of two array lengths
  or Set sizes. It is modelled by the exact rational, extended by \<open>NaN\<close> (the value of
  \<open>0 / 0\<close>) and \<open>Infinity\<close> (the value of \<open>n / 0\<close> for \<open>n > 0\<close>): \<open>Num q\<close> stands for
  the binary64 number nearest to \<open>q\<close>. Comparisons are made on the exact rationals. Where
  the code rounds a product to an integer, the binary64 arithmetic is written out (\<open>fl\<close>).
\<close>

datatype jsnum = NaN | PosInf | Num rat

text \<open>\<open>a / b\<close> for two lengths.\<close>

definition js_div :: "nat \<Rightarrow> nat \<Rightarrow> jsnum" where
  "js_div a b =
     (if b = 0 then (if a = 0 then NaN else PosInf) else Num (of_nat a / of_nat b))"

text \<open>\<open>a > b\<close>: every comparison with \<open>NaN\<close> is false.\<close>

fun js_gt :: "jsnum \<Rightarrow> jsnum \<Rightarrow> bool" where
  "js_gt NaN _ = False"
| "js_gt _ NaN = False"
| "js_gt PosInf PosInf = False"
| "js_gt PosInf (Num _) = True"
| "js_gt (Num _) PosInf = False"
| "js_gt (Num a) (Num b) = (b < a)"

text \<open>
  Binary64 rounding of a rational \<open>x\<close> with \<open>0 \<le> x < 2^53\<close> (the scores are at most 1 and
  their products with 100 at most 100): \<open>binade x 52\<close> is the exponent of \<open>x\<close>, not below
  the least exponent \<open>-1022\<close> of a normal number; the unit in the last place is 52 binary
  digits below it; and \<open>x\<close> is rounded to the nearest multiple of that unit, a tie to the
  even one.
\<close>

definition pow2 :: "int \<Rightarrow> rat" where
  "pow2 e = (if 0 \<le> e then 2 ^ nat e else 1 / 2 ^ nat (- e))"

function binade :: "rat \<Rightarrow> int \<Rightarrow> int" where
  "binade x e = (if e \<le> - 1022 \<or> pow2 e \<le> x then e else binade x (e - 1))"
  by pat_completeness auto
termination
  by (relation "measure (\<lambda>(x, e). nat (e + 1022))") auto

declare binade.simps [simp del]

definition roundHalfEven :: "rat \<Rightarrow> int" where
  "roundHalfEven x =
     (let f = \<lfloor>x\<rfloor>; d = x - of_int f
      in if d < 1 / 2 then f else if 1 / 2 < d then f + 1 else if even f then f else f + 1)"

definition fl :: "rat \<Rightarrow> rat" where
  "fl x =
     (if x = 0 then 0
      else (let ulp = pow2 (binade x 52 - 52)
            in of_int (roundHalfEven (x / ulp)) * ulp))"

text \<open>
  \<open>Math.round(x * 100) / 100\<close> for the binary64 number \<open>x\<close>: the product is rounded to
  binary64, \<open>Math.round\<close> takes the nearest integer, a half towards \<open>+Infinity\<close>, and the
  quotient by 100 is the binary64 number nearest to the hundredth.
\<close>

definition round2 :: "jsnum \<Rightarrow> jsnum" where
  "round2 x =
     (case x of
        NaN \<Rightarrow> NaN
      | PosInf \<Rightarrow> PosInf
      | Num q \<Rightarrow> Num (of_int \<lfloor>fl (fl q * 100) + 1 / 2\<rfloor> / 100))"

text \<open>
  \<open>Array.prototype.slice(0, e)\<close> for an integer \<open>e\<close>: a negative end counts from the end of
  the array. \<open>slice0_num\<close> takes the result of \<open>Math.min(parseInt(k), bound)\<close>, where
  \<open>None\<close> stands for \<open>NaN\<close>, which \<open>slice\<close> reads as \<open>0\<close>.
\<close>

definition js_slice0 :: "'a list \<Rightarrow> int \<Rightarrow> 'a list" where
  "js_slice0 xs e =
     (if e < 0 then take (nat (int (length xs) + e)) xs else take (nat e) xs)"

definition Math_min :: "int option \<Rightarrow> int \<Rightarrow> int option" where
  "Math_min a b = (case a of None \<Rightarrow> None | Some n \<Rightarrow> Some (min n b))"

definition slice0_num :: "'a list \<Rightarrow> int option \<Rightarrow> 'a list" where
  "slice0_num xs e = (case e of None \<Rightarrow> js_slice0 xs 0 | Some n \<Rightarrow> js_slice0 xs n)"

text \<open>
  \<open>Array.prototype.sort((a, b) => b.score - a.score)\<close>: a stable sort, descending by score.
  The comparator's result is positive exactly when \<open>b.score > a.score\<close>; a \<open>NaN\<close> result
  counts as a tie.
\<close>

fun insert_desc :: "('a \<Rightarrow> jsnum) \<Rightarrow> 'a \<Rightarrow> 'a list \<Rightarrow> 'a list" where
  "insert_desc f x [] = [x]"
| "insert_desc f x (y # ys) =
     (if js_gt (f y) (f x) then y # insert_desc f x ys else x # y # ys)"

definition sort_desc :: "('a \<Rightarrow> jsnum) \<Rightarrow> 'a list \<Rightarrow> 'a list" where
  "sort_desc f xs = foldr (insert_desc f) xs []"

section \<open>Strings\<close>

definition isUpper :: "char \<Rightarrow> bool" where
  "isUpper c =
     (let n = (of_char c :: nat) in
      (65 \<le> n \<and> n \<le> 90) \<or> (192 \<le> n \<and> n \<le> 222 \<and> n \<noteq> 215))"

text \<open>
  \<open>String.prototype.toLowerCase\<close> on code units up to U+00FF: the upper-case letters are
  \<open>A\<close>..\<open>Z\<close> and U+00C0..U+00DE without U+00D7, and their lower-case forms are 32 higher
  (bit 5 set).
\<close>

definition toLowerCase_unit :: "char \<Rightarrow> char" where
  "toLowerCase_unit c =
     (if isUpper c
      then (case c of Char b0 b1 b2 b3 b4 b5 b6 b7 \<Rightarrow> Char b0 b1 b2 b3 b4 True b6 b7)
      else c)"

definition toLowerCase :: "string \<Rightarrow> string" where
  "toLowerCase s = map toLowerCase_unit s"

text \<open>White space of \<open>String.prototype.trim\<close> among the code units up to U+00FF.\<close>

definition isSpace :: "char \<Rightarrow> bool" where
  "isSpace c = ((of_char c :: nat) \<in> {9, 10, 11, 12, 13, 32, 160})"

definition trim :: "string \<Rightarrow> string" where
  "trim s = rev (dropWhile isSpace (rev (dropWhile isSpace s)))"

text \<open>\<open>s.split(' ')\<close>: the pieces between single separator characters, empty ones kept.\<close>

fun split_char :: "char \<Rightarrow> string \<Rightarrow> string list" where
  "split_char d [] = [[]]"
| "split_char d (c # cs) =
     (if c = d then [] # split_char d cs
      else (case split_char d cs of [] \<Rightarrow> [[c]] | w # ws \<Rightarrow> (c # w) # ws))"

text \<open>
  \<open>s.split(/[...]+/)\<close> for a character class \<open>p\<close>: the pieces between maximal runs of
  separator characters, empty ones kept.
\<close>

function split_runs :: "(char \<Rightarrow> bool) \<Rightarrow> string \<Rightarrow> string list" where
  "split_runs p [] = [[]]"
| "split_runs p (c # cs) =
     (if p c then [] # split_runs p (dropWhile p cs)
      else (case split_runs p cs of [] \<Rightarrow> [[c]] | w # ws \<Rightarrow> (c # w) # ws))"
  by pat_completeness auto
termination
  by (relation "measure (\<lambda>(p, s). length s)")
     (auto simp: length_dropWhile_le less_Suc_eq_le)

text \<open>\<open>s.includes(t)\<close>: \<open>t\<close> occurs in \<open>s\<close> as a contiguous piece.\<close>

definition str_includes :: "string \<Rightarrow> string \<Rightarrow> bool" where
  "str_includes s t = sublist t s"

section \<open>The search route\<close>

definition stopWords :: "string list" where
  "stopWords = [''the'', ''a'', ''an'', ''and'', ''or'', ''but'', ''in'', ''on'', ''at'',
                ''to'', ''for'', ''of'', ''with'', ''by'']"

text \<open>
  \<open>calculateSimilarity\<close>. The tokenizer is \<open>natural.WordTokenizer\<close>, a library outside the
  repository, so it is a parameter. A \<open>Set\<close> is a duplicate-free list; its \<open>size\<close> is the
  list's length.
\<close>

definition calculateSimilarity ::
  "(string \<Rightarrow> string list) \<Rightarrow> string \<Rightarrow> string \<Rightarrow> jsnum" where
  "calculateSimilarity tokenize text1 text2 =
     (let tokens1 = tokenize (toLowerCase text1);
          tokens2 = tokenize (toLowerCase text2);
          filtered1 = filter (\<lambda>token. 2 < length token \<and> token \<notin> set stopWords) tokens1;
          filtered2 = filter (\<lambda>token. 2 < length token \<and> token \<notin> set stopWords) tokens2;
          set1 = remdups filtered1;
          set2 = remdups filtered2;
          intersection = remdups (filter (\<lambda>x. x \<in> set set2) set1);
          union = remdups (set1 @ set2)
      in js_div (length intersection) (length union))"

text \<open>
  Modelled from the spec: the tokenizer of the library \<open>natural\<close>, which is not part of the
  repository. The spec (4.1) says that runs of non-alphanumeric characters are separators;
  empty pieces are no tokens. It is used only to evaluate concrete inputs.
\<close>

definition isAlnum :: "char \<Rightarrow> bool" where
  "isAlnum c =
     (let n = (of_char c :: nat) in
      (48 \<le> n \<and> n \<le> 57) \<or> (65 \<le> n \<and> n \<le> 90) \<or> (97 \<le> n \<and> n \<le> 122))"

definition wordTokenize :: "string \<Rightarrow> string list" where
  "wordTokenize s = filter (\<lambda>w. w \<noteq> []) (split_runs (\<lambda>c. \<not> isAlnum c) s)"

text \<open>\<open>extractSnippets\<close>; each scored sentence is the pair of its trimmed text and its score.\<close>

definition extractSnippets :: "string \<Rightarrow> string \<Rightarrow> int \<Rightarrow> string list" where
  "extractSnippets text query k =
     (let sentences = filter (\<lambda>s. 10 < length (trim s))
                             (split_runs (\<lambda>c. c \<in> set ''.!?'') text);
          queryWords = filter (\<lambda>w. 2 < length w) (split_char CHR '' '' (toLowerCase query));
          scoredSentences = map (\<lambda>sentence.
             (let sentenceWords = split_char CHR '' '' (toLowerCase sentence);
                  matches = length (filter (\<lambda>word.
                     list_ex (\<lambda>sw. str_includes sw word \<or> str_includes word sw) sentenceWords)
                     queryWords);
                  score = js_div matches (length queryWords)
              in (trim sentence, score))) sentences
      in filter (\<lambda>s. 0 < length s)
           (map fst (js_slice0 (sort_desc snd scoredSentences) k)))"

text \<open>A row of the join of \<open>resumes\<close> and \<open>users\<close>, with the columns the routes read.\<close>

record resume_row =
  row_id :: nat
  user_id :: nat
  original_name :: string
  content :: string
  uploader_name :: string

datatype relevance = high | medium | low

record result_base =
  resume_id :: nat
  filename :: string
  uploader :: string

record search_result = result_base +
  similarity_score :: jsnum
  snippets :: "string list"
  relevance :: relevance

definition score_resume ::
  "(string \<Rightarrow> string list) \<Rightarrow> string \<Rightarrow> resume_row \<Rightarrow> search_result" where
  "score_resume tokenize query resume =
     (let similarity = calculateSimilarity tokenize (content resume) query;
          snips = extractSnippets (content resume) query 2
      in \<lparr> resume_id = row_id resume,
           filename = original_name resume,
           uploader = uploader_name resume,
           similarity_score = similarity,
           snippets = snips,
           relevance = (if js_gt similarity (Num (1 / 10)) then high
                        else if js_gt similarity (Num (5 / 100)) then medium else low) \<rparr>)"

text \<open>The floor \<open>0.01\<close>, the sort and the truncation to \<open>kNum\<close>.\<close>

definition search_results ::
  "(string \<Rightarrow> string list) \<Rightarrow> string \<Rightarrow> int option \<Rightarrow> resume_row list \<Rightarrow> search_result list" where
  "search_results tokenize query kNum resumes =
     slice0_num
       (sort_desc similarity_score
          (filter (\<lambda>result. js_gt (similarity_score result) (Num (1 / 100)))
             (map (score_resume tokenize query) resumes)))
       kNum"

text \<open>
  The filtered token sequence of a text, as \<open>calculateSimilarity\<close> computes it for each of
  its arguments: the name under which the properties below speak of it.
\<close>

definition filteredTokens :: "(string \<Rightarrow> string list) \<Rightarrow> string \<Rightarrow> string list" where
  "filteredTokens tokenize text =
     filter (\<lambda>token. 2 < length token \<and> token \<notin> set stopWords) (tokenize (toLowerCase text))"

text \<open>
  A response is an error envelope (status, code, message) or the JSON body of a success.
  What a handler does besides answering is the list of lines it writes with
  \<open>console.error\<close>.
\<close>

datatype 'a response = ErrorResponse nat string string | OkResponse 'a

record 'a outcome =
  response :: "'a response"
  logged :: "string list"

record search_body =
  body_query :: string
  results :: "search_result list"
  total_found :: nat

text \<open>
  \<open>router.post('/')\<close> of the search route. \<open>query\<close> is \<open>req.body.query\<close> (\<open>None\<close> when
  absent), \<open>k\<close> is the value of \<open>parseInt(k)\<close> after the default \<open>3\<close> (\<open>None\<close> for \<open>NaN\<close>),
  \<open>table\<close> is the join of resumes and users, \<open>db_all_err\<close> and \<open>db_run_err\<close> are the errors
  that the read \<open>db.all\<close> and the write \<open>db.run\<close> pass to their callbacks, if any. The
  SQL of the read restricts a caller of role \<open>user\<close> to the caller's own resumes.
\<close>

definition visible_resumes :: "string \<Rightarrow> nat \<Rightarrow> resume_row list \<Rightarrow> resume_row list" where
  "visible_resumes role userId table =
     (if role = ''user'' then filter (\<lambda>r. user_id r = userId) table else table)"

definition search_handler ::
  "(string \<Rightarrow> string list) \<Rightarrow> string option \<Rightarrow> string option \<Rightarrow> string \<Rightarrow> nat \<Rightarrow>
   resume_row list \<Rightarrow> string option \<Rightarrow> int option \<Rightarrow> search_body outcome" where
  "search_handler tokenize db_all_err db_run_err role userId table query k =
     (case query of
        None \<Rightarrow> \<lparr> response = ErrorResponse 400 ''FIELD_REQUIRED'' ''Query is required'',
                  logged = [] \<rparr>
      | Some q \<Rightarrow>
          if q = [] then
            \<lparr> response = ErrorResponse 400 ''FIELD_REQUIRED'' ''Query is required'',
              logged = [] \<rparr>
          else
            (let kNum = Math_min k 10 in
             case db_all_err of
               Some err \<Rightarrow>
                 \<lparr> response = ErrorResponse 500 ''INTERNAL_ERROR'' ''Failed to search resumes'',
                   logged = [''Database error: '' @ err] \<rparr>
             | None \<Rightarrow>
                 (let resumes = visible_resumes role userId table;
                      res = search_results tokenize q kNum resumes
                  in \<lparr> response = OkResponse
                          \<lparr> body_query = q, results = res, total_found = length res \<rparr>,
                        logged = (case db_run_err of
                                    None \<Rightarrow> []
                                  | Some err \<Rightarrow> [''Failed to cache query: '' @ err]) \<rparr>)))"

section \<open>The job-match route\<close>

record job_row =
  job_id :: nat
  title :: string
  description :: string
  requirements :: string

datatype recommendation = strong | moderate | weak

record match_result = result_base +
  match_score :: jsnum
  evidence :: "string list"
  missing_requirements :: "string list"
  recommendation :: recommendation

definition jobKeywords :: "job_row \<Rightarrow> string list" where
  "jobKeywords job =
     (let jobText = toLowerCase (title job @ '' '' @ description job @ '' '' @ requirements job)
      in filter (\<lambda>w. 3 < length w) (split_char CHR '' '' jobText))"

definition resumeKeywords :: "resume_row \<Rightarrow> string list" where
  "resumeKeywords resume =
     (let resumeText = toLowerCase (content resume)
      in filter (\<lambda>w. 3 < length w) (split_char CHR '' '' resumeText))"

text \<open>The test of both filters over the job keywords: bidirectional containment.\<close>

definition keywordFound :: "string list \<Rightarrow> string \<Rightarrow> bool" where
  "keywordFound rks keyword =
     list_ex (\<lambda>resumeKeyword.
        str_includes resumeKeyword keyword \<or> str_includes keyword resumeKeyword) rks"

definition matchingKeywords :: "job_row \<Rightarrow> resume_row \<Rightarrow> string list" where
  "matchingKeywords job resume = filter (keywordFound (resumeKeywords resume)) (jobKeywords job)"

text \<open>The unrounded \<open>matchScore\<close>, from which the recommendation is taken.\<close>

definition matchScore :: "job_row \<Rightarrow> resume_row \<Rightarrow> jsnum" where
  "matchScore job resume =
     js_div (length (matchingKeywords job resume)) (length (jobKeywords job))"

definition match_resume :: "job_row \<Rightarrow> resume_row \<Rightarrow> match_result" where
  "match_resume job resume =
     (let evid = js_slice0 (matchingKeywords job resume) 5;
          missingRequirements =
            js_slice0 (filter (\<lambda>keyword. \<not> keywordFound (resumeKeywords resume) keyword)
                         (jobKeywords job)) 5
      in \<lparr> resume_id = row_id resume,
           filename = original_name resume,
           uploader = uploader_name resume,
           match_score = round2 (matchScore job resume),
           evidence = evid,
           missing_requirements = missingRequirements,
           recommendation =
             (if js_gt (matchScore job resume) (Num (3 / 10)) then strong
              else if js_gt (matchScore job resume) (Num (1 / 10)) then moderate else weak) \<rparr>)"

definition match_results :: "job_row \<Rightarrow> int option \<Rightarrow> resume_row list \<Rightarrow> match_result list" where
  "match_results job topN resumes =
     slice0_num
       (sort_desc match_score
          (filter (\<lambda>m. js_gt (match_score m) (Num 0)) (map (match_resume job) resumes)))
       topN"

record match_body =
  body_job_id :: nat
  job_title :: string
  matches :: "match_result list"
  total_matches :: nat

text \<open>
  \<open>router.post('/:id/match')\<close>. \<open>top_n\<close> is the value of \<open>parseInt(top_n)\<close> after the default
  \<open>5\<close>; \<open>db_get\<close> is what the job lookup passes to its callback (an error, no row, or the
  row); \<open>insert_err\<close> gives, for a resume id, the error of its \<open>INSERT OR REPLACE\<close> into
  \<open>job_matches\<close>, if any. \<open>Promise.all\<close> rejects when an insert fails; the handler logs the
  rejection and answers as in the fulfilled case.
\<close>

definition match_handler ::
  "string \<Rightarrow> (string + job_row option) \<Rightarrow> string option \<Rightarrow> (nat \<Rightarrow> string option) \<Rightarrow>
   resume_row list \<Rightarrow> int option \<Rightarrow> match_body outcome" where
  "match_handler role db_get db_all_err insert_err table top_n =
     (if role \<noteq> ''recruiter'' \<and> role \<noteq> ''admin'' then
        \<lparr> response = ErrorResponse 403 ''FORBIDDEN''
                       ''Only recruiters and admins can match resumes to jobs'',
          logged = [] \<rparr>
      else
        (let topN = Math_min top_n 20 in
         case db_get of
           Inl err \<Rightarrow>
             \<lparr> response = ErrorResponse 500 ''INTERNAL_ERROR'' ''Failed to fetch job'',
               logged = [''Database error: '' @ err] \<rparr>
         | Inr None \<Rightarrow>
             \<lparr> response = ErrorResponse 404 ''NOT_FOUND'' ''Job not found'', logged = [] \<rparr>
         | Inr (Some job) \<Rightarrow>
             (case db_all_err of
                Some err \<Rightarrow>
                  \<lparr> response = ErrorResponse 500 ''INTERNAL_ERROR'' ''Failed to fetch resumes'',
                    logged = [''Database error: '' @ err] \<rparr>
              | None \<Rightarrow>
                  (let ms = match_results job topN table;
                       failures = List.map_filter (\<lambda>m. insert_err (resume_id m)) ms
                   in \<lparr> response = OkResponse
                           \<lparr> body_job_id = job_id job, job_title = title job,
                             matches = ms, total_matches = length ms \<rparr>,
                         logged = (case failures of
                                     [] \<Rightarrow> []
                                   | err # _ \<Rightarrow> [''Failed to store matches: '' @ err]) \<rparr>))))"

section \<open>Notions and inputs used in the properties\<close>

text \<open>A score in the closed interval from 0 to 1; \<open>NaN\<close> and \<open>Infinity\<close> are not.\<close>

fun in_unit_interval :: "jsnum \<Rightarrow> bool" where
  "in_unit_interval (Num q) = (0 \<le> q \<and> q \<le> 1)"
| "in_unit_interval _ = False"

definition resume_of :: "nat \<Rightarrow> string \<Rightarrow> resume_row" where
  "resume_of i text =
     \<lparr> row_id = i, user_id = 1, original_name = ''cv.txt'', content = text,
       uploader_name = ''Jane'' \<rparr>"

definition job_of :: "string \<Rightarrow> string \<Rightarrow> string \<Rightarrow> job_row" where
  "job_of t d r = \<lparr> job_id = 1, title = t, description = d, requirements = r \<rparr>"

text \<open>Three job keywords, one of them in the resume \<open>python\<close>.\<close>

definition job_third :: job_row where
  "job_third = job_of ''Python'' ''django'' ''kubernetes''"

text \<open>A tab between two words of the description.\<close>

definition job_tab :: job_row where
  "job_tab = job_of ''Engineer'' (''java'' @ [CHR 0x09] @ ''python'') ''rust''"

text \<open>Twenty-three job keywords, seven of them \<open>python\<close>.\<close>

definition job_7_of_23 :: job_row where
  "job_7_of_23 =
     job_of ''Python'' ''python python python python python python''
       (''rust rust rust rust rust rust rust rust '' @
        ''rust rust rust rust rust rust rust rust'')"

text \<open>A job that names \<open>python\<close> twice among its three keywords.\<close>

definition job_twice :: job_row where
  "job_twice = job_of ''Python'' ''python'' ''haskell''"

text \<open>The list of results in a handler's answer; an error envelope carries none.\<close>

definition returned_results :: "search_body outcome \<Rightarrow> search_result list" where
  "returned_results out =
     (case response out of OkResponse b \<Rightarrow> results b | ErrorResponse _ _ _ \<Rightarrow> [])"

definition returned_matches :: "match_body outcome \<Rightarrow> match_result list" where
  "returned_matches out =
     (case response out of OkResponse b \<Rightarrow> matches b | ErrorResponse _ _ _ \<Rightarrow> [])"

text \<open>Resumes with the ids \<open>1\<close> to \<open>n\<close>, all with the same text.\<close>

definition resumes_upto :: "nat \<Rightarrow> string \<Rightarrow> resume_row list" where
  "resumes_upto n text = map (\<lambda>i. resume_of i text) [1..<Suc n]"

section \<open>The resume route\<close>

text \<open>
  \<open>router.get('/:id')\<close> redacts with two global regular expressions:
  \<^verbatim>\<open>/\b[A-Za-z0-9._%+-]+@[A-Za-z0-9.-]+\.[A-Z|a-z]{2,}\b/g\<close> and
  \<^verbatim>\<open>/\b\d{3}[-.]?\d{3}[-.]?\d{4}\b/g\<close>. Each is modelled by a matcher that is
  given the character before the current position (\<open>None\<close> at the start of the string) and
  the rest of the string, and returns the length of the match that the backtracking
  matcher of JavaScript finds at this position, if there is one.
\<close>

definition isDigit :: "char \<Rightarrow> bool" where
  "isDigit c = (let n = (of_char c :: nat) in 48 \<le> n \<and> n \<le> 57)"

definition isAlpha :: "char \<Rightarrow> bool" where
  "isAlpha c = (let n = (of_char c :: nat) in (65 \<le> n \<and> n \<le> 90) \<or> (97 \<le> n \<and> n \<le> 122))"

text \<open>\<^verbatim>\<open>\w\<close>, the class behind \<^verbatim>\<open>\b\<close>.\<close>

definition isWordChar :: "char \<Rightarrow> bool" where
  "isWordChar c = (isAlpha c \<or> isDigit c \<or> c = CHR ''_'')"

text \<open>\<^verbatim>\<open>[A-Za-z0-9._%+-]\<close>, \<^verbatim>\<open>[A-Za-z0-9.-]\<close> and \<^verbatim>\<open>[A-Z|a-z]\<close>.\<close>

definition isLocalChar :: "char \<Rightarrow> bool" where
  "isLocalChar c = (isAlpha c \<or> isDigit c \<or> c \<in> set ''._%+-'')"

definition isDomainChar :: "char \<Rightarrow> bool" where
  "isDomainChar c = (isAlpha c \<or> isDigit c \<or> c \<in> set ''.-'')"

definition isTldChar :: "char \<Rightarrow> bool" where
  "isTldChar c = (isAlpha c \<or> c = CHR ''|'')"

text \<open>The character at an index, \<open>None\<close> outside the string.\<close>

definition charAt :: "string \<Rightarrow> nat \<Rightarrow> char option" where
  "charAt s i = (if i < length s then Some (s ! i) else None)"

text \<open>\<^verbatim>\<open>\b\<close> between two neighbours: exactly one of them is a word character.\<close>

fun isWord :: "char option \<Rightarrow> bool" where
  "isWord None = False"
| "isWord (Some c) = isWordChar c"

definition wordBoundary :: "char option \<Rightarrow> char option \<Rightarrow> bool" where
  "wordBoundary a b = (isWord a \<noteq> isWord b)"

text \<open>
  The top-level domain \<^verbatim>\<open>[A-Z|a-z]{2,}\b\<close> from index \<open>p\<close> of \<open>r\<close>: the greedy quantifier
  tries the longest run first and gives characters back one at a time, down to two.
  The result is the index after the match.
\<close>

fun tldTry :: "string \<Rightarrow> nat \<Rightarrow> nat \<Rightarrow> nat option" where
  "tldTry r p 0 = None"
| "tldTry r p (Suc t) =
     (if 2 \<le> Suc t \<and> wordBoundary (charAt r (p + t)) (charAt r (p + Suc t))
      then Some (p + Suc t) else tldTry r p t)"

definition tldMatch :: "string \<Rightarrow> nat \<Rightarrow> nat option" where
  "tldMatch r d =
     (if charAt r d = Some CHR ''.''
      then tldTry r (Suc d) (length (takeWhile isTldChar (drop (Suc d) r)))
      else None)"

text \<open>
  The domain \<^verbatim>\<open>[A-Za-z0-9.-]+\<close> followed by the dot and the top-level domain: the
  longest domain first, then shorter ones, down to one character.
\<close>

fun domainMatch :: "string \<Rightarrow> nat \<Rightarrow> nat option" where
  "domainMatch r 0 = None"
| "domainMatch r (Suc d) =
     (case tldMatch r (Suc d) of Some k \<Rightarrow> Some k | None \<Rightarrow> domainMatch r d)"

text \<open>
  The local part is the whole run of local characters: a shorter one is followed by a
  local character, not by \<open>@\<close>.
\<close>

definition emailMatch :: "char option \<Rightarrow> string \<Rightarrow> nat option" where
  "emailMatch prev s =
     (if \<not> wordBoundary prev (charAt s 0) then None
      else
        (let loc = takeWhile isLocalChar s in
         if loc = [] then None
         else
           (case dropWhile isLocalChar s of
              [] \<Rightarrow> None
            | c # r \<Rightarrow>
                if c \<noteq> CHR ''@'' then None
                else map_option (\<lambda>k. length loc + 1 + k)
                       (domainMatch r (length (takeWhile isDomainChar r))))))"

text \<open>\<^verbatim>\<open>\d{n}\<close>: the rest of the string after \<open>n\<close> digits.\<close>

fun matchDigits :: "nat \<Rightarrow> string \<Rightarrow> string option" where
  "matchDigits 0 s = Some s"
| "matchDigits (Suc n) [] = None"
| "matchDigits (Suc n) (c # cs) = (if isDigit c then matchDigits n cs else None)"

text \<open>
  \<^verbatim>\<open>[-.]?\<close>: a separator is taken when there is one; giving it back cannot help, since a
  digit must follow.
\<close>

fun skipSep :: "string \<Rightarrow> string" where
  "skipSep [] = []"
| "skipSep (c # cs) = (if c = CHR ''-'' \<or> c = CHR ''.'' then cs else c # cs)"

definition phoneMatch :: "char option \<Rightarrow> string \<Rightarrow> nat option" where
  "phoneMatch prev s =
     (if \<not> wordBoundary prev (charAt s 0) then None
      else
        (case matchDigits 3 s of
           None \<Rightarrow> None
         | Some r1 \<Rightarrow>
             (case matchDigits 3 (skipSep r1) of
                None \<Rightarrow> None
              | Some r2 \<Rightarrow>
                  (case matchDigits 4 (skipSep r2) of
                     None \<Rightarrow> None
                   | Some r3 \<Rightarrow>
                       (let n = length s - length r3 in
                        if wordBoundary (charAt s (n - 1)) (charAt s n)
                        then Some n else None)))))"

text \<open>
  \<open>content.replace(regex, repl)\<close> for a global regular expression whose matches are not
  empty: the leftmost match from the current position on is replaced, and the search goes
  on behind it.
\<close>

function regexReplaceAll ::
  "(char option \<Rightarrow> string \<Rightarrow> nat option) \<Rightarrow> string \<Rightarrow> char option \<Rightarrow> string \<Rightarrow> string" where
  "regexReplaceAll m repl prev [] = []"
| "regexReplaceAll m repl prev (c # cs) =
     (case m prev (c # cs) of
        None \<Rightarrow> c # regexReplaceAll m repl (Some c) cs
      | Some n \<Rightarrow>
          repl @ regexReplaceAll m repl (charAt (c # cs) (n - 1)) (drop (n - 1) cs))"
  by pat_completeness auto
termination
  by (relation "measure (\<lambda>(m, repl, prev, s). length s)") auto


definition redactPII :: "string \<Rightarrow> string" where
  "redactPII content0 =
     (let content1 = regexReplaceAll emailMatch ''[EMAIL REDACTED]'' None content0
      in regexReplaceAll phoneMatch ''[PHONE REDACTED]'' None content1)"

record resume_body =
  body_id :: nat
  body_filename :: string
  body_content :: string
  body_uploader :: string

text \<open>
  \<open>router.get('/:id')\<close>. The handler only reads: it returns its answer together with the
  table, which it leaves as it is. A caller of role \<open>user\<close> finds only the caller's own
  resumes.
\<close>

definition get_resume_handler ::
  "string \<Rightarrow> nat \<Rightarrow> string option \<Rightarrow> resume_row list \<Rightarrow> nat \<Rightarrow>
   resume_body outcome \<times> resume_row list" where
  "get_resume_handler role userId db_get_err table rid =
     (case db_get_err of
        Some err \<Rightarrow>
          (\<lparr> response = ErrorResponse 500 ''INTERNAL_ERROR'' ''Failed to fetch resume'',
             logged = [''Database error: '' @ err] \<rparr>, table)
      | None \<Rightarrow>
          (case find (\<lambda>r. row_id r = rid \<and> (if role = ''user'' then user_id r = userId else True))
                  table of
             None \<Rightarrow>
               (\<lparr> response = ErrorResponse 404 ''NOT_FOUND'' ''Resume not found'',
                  logged = [] \<rparr>, table)
           | Some row \<Rightarrow>
               (let content0 = content row;
                    content1 = (if role \<noteq> ''recruiter'' \<and> role \<noteq> ''admin''
                                then redactPII content0 else content0)
                in (\<lparr> response = OkResponse
                        \<lparr> body_id = row_id row, body_filename = original_name row,
                          body_content = content1, body_uploader = uploader_name row \<rparr>,
                      logged = [] \<rparr>, table))))"






text \<open>A stored resume with an email address and a phone number.\<close>

definition resume_contact :: resume_row where
  "resume_contact = resume_of 1 ''Contact me at jane@example.com or 555-123-4567''"

section \<open>Evaluation, sorting and slicing\<close>

lemmas eval_defs = calculateSimilarity_def wordTokenize_def toLowerCase_def js_div_def
  toLowerCase_unit_def isUpper_def isAlnum_def stopWords_def filteredTokens_def
  extractSnippets_def trim_def isSpace_def js_slice0_def sort_desc_def str_includes_def
  score_resume_def search_results_def slice0_num_def Math_min_def resume_of_def job_of_def
  jobKeywords_def resumeKeywords_def keywordFound_def matchingKeywords_def matchScore_def
  match_resume_def match_results_def job_third_def job_tab_def job_7_of_23_def job_twice_def
  visible_resumes_def search_handler_def match_handler_def returned_results_def
  returned_matches_def resumes_upto_def sublist_code(3) floor_eq_iff

lemma length_remdups_card: "length (remdups xs) = card (set xs)"
  by (simp add: length_remdups_card_conv)

lemma set_insert_desc: "set (insert_desc f x ys) = insert x (set ys)"
  by (induction ys) auto

lemma length_insert_desc: "length (insert_desc f x ys) = Suc (length ys)"
  by (induction ys) auto

lemma set_sort_desc: "set (sort_desc f xs) = set xs"
  by (induction xs) (auto simp: sort_desc_def set_insert_desc)

lemma length_sort_desc: "length (sort_desc f xs) = length xs"
  by (induction xs) (auto simp: sort_desc_def length_insert_desc)

lemma set_js_slice0: "set (js_slice0 xs e) \<subseteq> set xs"
  by (auto simp: js_slice0_def dest: in_set_takeD)

lemma length_js_slice0_le: "length (js_slice0 xs e) \<le> length xs"
  by (simp add: js_slice0_def min_def)

lemma length_js_slice0_nonneg: "0 \<le> e \<Longrightarrow> length (js_slice0 xs e) \<le> nat e"
  by (simp add: js_slice0_def)

lemma set_slice0_num: "set (slice0_num xs e) \<subseteq> set xs"
  by (cases e) (simp_all add: slice0_num_def set_js_slice0)

lemma length_slice0_num_le: "length (slice0_num xs e) \<le> length xs"
  by (cases e) (simp_all add: slice0_num_def length_js_slice0_le)

lemma slice0_num_NaN: "slice0_num xs None = []"
  by (simp add: slice0_num_def js_slice0_def)

section \<open>Binary64 rounding\<close>

lemma round2_simps:
  "round2 NaN = NaN" "round2 PosInf = PosInf"
  "round2 (Num q) = Num (of_int \<lfloor>fl (fl q * 100) + 1 / 2\<rfloor> / 100)"
  by (simp_all add: round2_def)

text \<open>
  The rounding follows binary64: 23 of 40 gives 0.57 and 29 of 200 gives 0.14, where
  rounding the exact products 57.5 and 14.5 would give 0.58 and 0.15.
\<close>

lemma round2_23_40: "round2 (Num (23 / 40)) = Num (57 / 100)"
  by code_simp

lemma round2_29_200: "round2 (Num (29 / 200)) = Num (14 / 100)"
  by code_simp

lemma round2_1_3: "round2 (Num (1 / 3)) = Num (33 / 100)"
  by code_simp

lemma round2_2_3: "round2 (Num (2 / 3)) = Num (67 / 100)"
  by code_simp

lemma round2_7_23: "round2 (Num (7 / 23)) = Num (3 / 10)"
  by code_simp

lemma roundHalfEven_le:
  assumes "x \<le> of_int k"
  shows "roundHalfEven x \<le> k"
proof (cases "\<lfloor>x\<rfloor> < k")
  case True
  have "roundHalfEven x \<le> \<lfloor>x\<rfloor> + 1"
    by (simp add: roundHalfEven_def Let_def)
  with True show ?thesis by simp
next
  case False
  from assms have "\<lfloor>x\<rfloor> \<le> k" by (simp add: floor_le_iff)
  with False have fk: "\<lfloor>x\<rfloor> = k" by simp
  then have "of_int k \<le> x" by (metis of_int_floor_le)
  with assms have "x = of_int k" by simp
  then show ?thesis by (simp add: roundHalfEven_def Let_def)
qed

lemma roundHalfEven_nonneg:
  assumes "0 \<le> x"
  shows "0 \<le> roundHalfEven x"
proof -
  from assms have "0 \<le> \<lfloor>x\<rfloor>" by simp
  moreover have "\<lfloor>x\<rfloor> \<le> roundHalfEven x"
    by (simp add: roundHalfEven_def Let_def)
  ultimately show ?thesis by (rule order_trans)
qed

lemma binade_le: "binade x e \<le> e"
proof (induction x e rule: binade.induct)
  case (1 x e)
  show ?case
  proof (cases "e \<le> - 1022 \<or> pow2 e \<le> x")
    case True
    then show ?thesis by (subst binade.simps) simp
  next
    case False
    from "1.IH" [OF False] have "binade x (e - 1) \<le> e - 1" .
    with False show ?thesis by (subst binade.simps) simp
  qed
qed

lemma ulp_inverse:
  obtains K :: nat where "0 < K" and "pow2 (binade x 52 - 52) = 1 / of_nat K"
proof -
  let ?e = "binade x 52 - 52"
  have "?e \<le> 0" using binade_le [of x 52] by simp
  then have "pow2 ?e = 1 / of_nat (2 ^ nat (- ?e))"
    by (cases "?e = 0") (simp_all add: pow2_def)
  moreover have "0 < (2::nat) ^ nat (- ?e)" by simp
  ultimately show ?thesis using that by blast
qed

lemma fl_le_int:
  assumes "0 \<le> x" and "x \<le> of_int n"
  shows "fl x \<le> of_int n"
proof (cases "x = 0")
  case True
  with assms show ?thesis by (simp add: fl_def)
next
  case False
  obtain K :: nat where K: "0 < K" and ulp: "pow2 (binade x 52 - 52) = 1 / of_nat K"
    by (rule ulp_inverse)
  from assms(2) K have "x * of_nat K \<le> of_int n * of_nat K"
    by (simp add: mult_right_mono)
  then have "x * of_nat K \<le> of_int (n * int K)" by simp
  then have "roundHalfEven (x * of_nat K) \<le> n * int K" by (rule roundHalfEven_le)
  then have "(of_int (roundHalfEven (x * of_nat K)) :: rat) \<le> of_int (n * int K)"
    by (simp only: of_int_le_iff)
  then have "(of_int (roundHalfEven (x * of_nat K)) :: rat) / of_nat K \<le> of_int n"
    using K by (simp add: pos_divide_le_eq)
  then show ?thesis
    using False by (simp add: fl_def Let_def ulp)
qed

lemma fl_nonneg:
  assumes "0 \<le> x"
  shows "0 \<le> fl x"
proof (cases "x = 0")
  case True
  then show ?thesis by (simp add: fl_def)
next
  case False
  obtain K :: nat where K: "0 < K" and ulp: "pow2 (binade x 52 - 52) = 1 / of_nat K"
    by (rule ulp_inverse)
  from assms have "0 \<le> x * of_nat K" by simp
  then have "0 \<le> roundHalfEven (x * of_nat K)" by (rule roundHalfEven_nonneg)
  then show ?thesis
    using False K by (simp add: fl_def Let_def ulp)
qed

text \<open>The two-decimal rounding of a score between 0 and 1 lies between 0 and 1.\<close>

lemma round2_unit:
  assumes "0 \<le> q" and "q \<le> 1"
  shows "\<exists>v. round2 (Num q) = Num v \<and> 0 \<le> v \<and> v \<le> 1"
proof -
  let ?y = "fl (fl q * 100)"
  from assms(1) have a: "0 \<le> fl q" by (rule fl_nonneg)
  from fl_le_int [OF assms(1), of 1] assms(2) have b: "fl q \<le> 1" by simp
  from a have c: "0 \<le> fl q * 100" by simp
  from b have "fl q * 100 \<le> of_int 100" by simp
  from fl_le_int [OF c this] have d: "?y \<le> 100" by simp
  from c have e: "0 \<le> ?y" by (rule fl_nonneg)
  from e have "0 \<le> \<lfloor>?y + 1 / 2\<rfloor>" by simp
  then have lo: "0 \<le> (of_int \<lfloor>?y + 1 / 2\<rfloor> / 100 :: rat)" by simp
  from d have "?y + 1 / 2 < 101" by simp
  then have "\<lfloor>?y + 1 / 2\<rfloor> < 101" by (simp add: floor_less_iff)
  then have "\<lfloor>?y + 1 / 2\<rfloor> \<le> 100" by simp
  then have "(of_int \<lfloor>?y + 1 / 2\<rfloor> :: rat) \<le> of_int 100"
    by (simp only: of_int_le_iff)
  then have hi: "(of_int \<lfloor>?y + 1 / 2\<rfloor> / 100 :: rat) \<le> 1" by simp
  have "round2 (Num q) = Num (of_int \<lfloor>?y + 1 / 2\<rfloor> / 100)"
    by (rule round2_simps(3))
  with lo hi show ?thesis by blast
qed

section \<open>Properties of the similarity score\<close>

text \<open>The score is the Jaccard quotient of the two filtered token sets.\<close>

lemma calculateSimilarity_card:
  "calculateSimilarity tokenize text1 text2 =
     js_div (card (set (filteredTokens tokenize text1) \<inter> set (filteredTokens tokenize text2)))
            (card (set (filteredTokens tokenize text1) \<union> set (filteredTokens tokenize text2)))"
proof -
  have inter: "set (filter (\<lambda>x. x \<in> set ys) xs) = set xs \<inter> set ys" for xs ys :: "string list"
    by auto
  show ?thesis
    unfolding calculateSimilarity_def filteredTokens_def Let_def length_remdups_card
    by (simp only: set_remdups set_append inter)
qed

lemma calculateSimilarity_NaN_iff:
  "calculateSimilarity tokenize A B = NaN \<longleftrightarrow>
     filteredTokens tokenize A = [] \<and> filteredTokens tokenize B = []"
  unfolding calculateSimilarity_card by (auto simp: js_div_def)

lemma calculateSimilarity_range:
  "calculateSimilarity tokenize A B = NaN \<or>
   (\<exists>q. calculateSimilarity tokenize A B = Num q \<and> 0 \<le> q \<and> q \<le> 1)"
proof -
  let ?S = "set (filteredTokens tokenize A)" and ?T = "set (filteredTokens tokenize B)"
  have "card (?S \<inter> ?T) \<le> card (?S \<union> ?T)"
    by (intro card_mono) auto
  then show ?thesis
    unfolding calculateSimilarity_card by (auto simp: js_div_def divide_le_eq_1)
qed

text \<open>
  C1 (as the code has it). For every pair of input texts whose filtered token sets are both
  empty, \<open>calculateSimilarity\<close> returns \<open>NaN\<close>, the value of \<open>0 / 0\<close>: the function has no
  guard for the empty union. \<open>NaN\<close> does not exceed the relevance floor \<open>0.01\<close>, so the
  search route drops such a candidate as it would drop a score of 0.
\<close>

theorem calculateSimilarity_empty_is_NaN:
  assumes "filteredTokens tokenize A = []" and "filteredTokens tokenize B = []"
  shows "calculateSimilarity tokenize A B = NaN \<and>
         \<not> js_gt (calculateSimilarity tokenize A B) (Num (1 / 100))"
  using assms calculateSimilarity_NaN_iff [of tokenize A B] by simp

theorem calculateSimilarity_empty_is_NaN_witness:
  "filteredTokens wordTokenize ''And the: for it is'' = [] \<and>
   filteredTokens wordTokenize '''' = [] \<and>
   calculateSimilarity wordTokenize ''And the: for it is'' '''' = NaN"
proof -
  have a: "filteredTokens wordTokenize ''And the: for it is'' = []"
    by (simp add: eval_defs)
  have b: "filteredTokens wordTokenize '''' = []"
    by (simp add: eval_defs)
  from calculateSimilarity_empty_is_NaN [OF a b] a b show ?thesis by simp
qed

text \<open>
  C1 as the claim states it fails: the similarity of the empty text with itself is not 0.
\<close>

theorem calculateSimilarity_empty_not_zero:
  "filteredTokens wordTokenize '''' = [] \<and> calculateSimilarity wordTokenize '''' '''' \<noteq> Num 0"
  by (simp add: eval_defs)

text \<open>
  C7. Jaccard symmetry: for all texts \<open>A\<close> and \<open>B\<close>, \<open>calculateSimilarity(A, B)\<close> and
  \<open>calculateSimilarity(B, A)\<close> are the same value, whatever the tokenizer returns. When both
  filtered token sets are empty, both calls return \<open>NaN\<close>.
\<close>

theorem calculateSimilarity_symmetric:
  "calculateSimilarity tokenize A B = calculateSimilarity tokenize B A"
  unfolding calculateSimilarity_card
  by (simp only: Int_commute Un_commute)

section \<open>Properties of the ranked lists\<close>

lemma search_results_subset:
  "set (search_results tokenize query kNum resumes) \<subseteq>
     {r \<in> score_resume tokenize query ` set resumes. js_gt (similarity_score r) (Num (1 / 100))}"
  unfolding search_results_def
  using set_slice0_num [of "sort_desc similarity_score
          (filter (\<lambda>result. js_gt (similarity_score result) (Num (1 / 100)))
             (map (score_resume tokenize query) resumes))" kNum]
  by (auto simp: set_sort_desc)

lemma similarity_score_score_resume:
  "similarity_score (score_resume tokenize query resume) =
     calculateSimilarity tokenize (content resume) query"
  by (simp add: score_resume_def Let_def)

lemma match_results_subset:
  "set (match_results job topN resumes) \<subseteq>
     {m \<in> match_resume job ` set resumes. js_gt (match_score m) (Num 0)}"
  unfolding match_results_def
  using set_slice0_num [of "sort_desc match_score
          (filter (\<lambda>m. js_gt (match_score m) (Num 0)) (map (match_resume job) resumes))" topN]
  by (auto simp: set_sort_desc)

lemma match_score_match_resume:
  "match_score (match_resume job resume) = round2 (matchScore job resume)"
  by (simp add: match_resume_def Let_def)

lemma length_matchingKeywords_le:
  "length (matchingKeywords job resume) \<le> length (jobKeywords job)"
  by (simp add: matchingKeywords_def)

lemma matchScore_cases:
  "(jobKeywords job = [] \<and> matchScore job resume = NaN) \<or>
   (jobKeywords job \<noteq> [] \<and>
    matchScore job resume =
      Num (of_nat (length (matchingKeywords job resume)) / of_nat (length (jobKeywords job))))"
  using length_matchingKeywords_le [of job resume]
  by (auto simp: matchScore_def js_div_def)

lemma matchScore_ratio_unit:
  "jobKeywords job \<noteq> [] \<Longrightarrow>
   0 \<le> (of_nat (length (matchingKeywords job resume)) / of_nat (length (jobKeywords job)) :: rat) \<and>
   (of_nat (length (matchingKeywords job resume)) / of_nat (length (jobKeywords job)) :: rat) \<le> 1"
  using length_matchingKeywords_le [of job resume]
  by (simp add: divide_le_eq_1)

text \<open>
  C3. Every score that the search route or the job-match route returns lies in the closed
  interval from 0 to 1, for all texts: a candidate whose texts give no keywords has the
  score \<open>NaN\<close> and is not returned.
\<close>

theorem returned_scores_in_unit_interval:
  "(\<forall>r \<in> set (search_results tokenize query kNum resumes).
      in_unit_interval (similarity_score r)) \<and>
   (\<forall>m \<in> set (match_results job topN rows). in_unit_interval (match_score m))"
proof (intro conjI ballI)
  fix r assume "r \<in> set (search_results tokenize query kNum resumes)"
  then obtain resume where r: "r = score_resume tokenize query resume"
    and gt: "js_gt (similarity_score r) (Num (1 / 100))"
    using search_results_subset [of tokenize query kNum resumes] by auto
  from calculateSimilarity_range [of tokenize "content resume" query] gt
  show "in_unit_interval (similarity_score r)"
    unfolding r similarity_score_score_resume by auto
next
  fix m assume "m \<in> set (match_results job topN rows)"
  then obtain resume where m: "m = match_resume job resume"
    and gt: "js_gt (match_score m) (Num 0)"
    using match_results_subset [of job topN rows] by auto
  let ?q = "of_nat (length (matchingKeywords job resume)) /
            of_nat (length (jobKeywords job)) :: rat"
  from gt have pos: "js_gt (round2 (matchScore job resume)) (Num 0)"
    unfolding m match_score_match_resume .
  have ne: "jobKeywords job \<noteq> []"
  proof
    assume "jobKeywords job = []"
    with matchScore_cases [of job resume] have "matchScore job resume = NaN" by simp
    with pos show False by (simp add: round2_simps)
  qed
  with matchScore_cases [of job resume] have sc: "matchScore job resume = Num ?q"
    by simp
  from ne have q: "0 \<le> ?q" "?q \<le> 1"
    using matchScore_ratio_unit [of job resume] by simp_all
  from round2_unit [OF q] obtain v where "round2 (Num ?q) = Num v" and "0 \<le> v" and "v \<le> 1"
    by blast
  then show "in_unit_interval (match_score m)"
    unfolding m match_score_match_resume sc by simp
qed

text \<open>Evaluating the match ranking without unfolding the match records.\<close>

lemma matchScore_third: "matchScore job_third (resume_of 1 ''Python'') = Num (1 / 3)"
  by (simp add: eval_defs)

lemma matchScore_twice: "matchScore job_twice (resume_of 1 ''Python'') = Num (2 / 3)"
  by (simp add: eval_defs)

lemma matchScore_7_of_23: "matchScore job_7_of_23 (resume_of 1 ''Python'') = Num (7 / 23)"
  by (simp add: eval_defs)

lemmas match_ranking_simps = match_results_def match_score_match_resume sort_desc_def
  slice0_num_def js_slice0_def Math_min_def matchScore_third matchScore_twice
  matchScore_7_of_23 round2_1_3 round2_2_3 round2_7_23

lemma match_third:
  "match_results job_third (Some 5) [resume_of 1 ''Python''] =
     [match_resume job_third (resume_of 1 ''Python'')]"
  by (simp add: match_ranking_simps del: One_nat_def)

lemma match_twice:
  "match_results job_twice (Some 5) [resume_of 1 ''Python''] =
     [match_resume job_twice (resume_of 1 ''Python'')]"
  by (simp add: match_ranking_simps del: One_nat_def)


lemma search_one:
  "map similarity_score (search_results wordTokenize ''python developer'' (Some 3)
       [resume_of 1 ''Senior Python engineer'']) = [Num (1 / 4)]"
  by (simp add: eval_defs)

theorem returned_scores_in_unit_interval_witness:
  "in_unit_interval (similarity_score (hd (search_results wordTokenize ''python developer''
       (Some 3) [resume_of 1 ''Senior Python engineer'']))) \<and>
   in_unit_interval (match_score (hd (match_results job_third (Some 5)
       [resume_of 1 ''Python''])))"
proof -
  have a: "search_results wordTokenize ''python developer'' (Some 3)
       [resume_of 1 ''Senior Python engineer''] \<noteq> []"
    by (simp add: eval_defs)
  have b: "match_results job_third (Some 5) [resume_of 1 ''Python''] \<noteq> []"
    unfolding match_third by simp
  from returned_scores_in_unit_interval [of wordTokenize "''python developer''" "Some 3"
      "[resume_of 1 ''Senior Python engineer'']" job_third "Some 5" "[resume_of 1 ''Python'']"]
    a b show ?thesis
    by (meson hd_in_set)
qed

section \<open>Properties of the match score\<close>

lemma count_list_filter:
  "count_list (filter P xs) x = (if P x then count_list xs x else 0)"
  by (induction xs) auto

lemma match_results_origin:
  assumes "m \<in> set (match_results job topN rows)"
  obtains resume where "resume \<in> set rows" and "m = match_resume job resume"
    and "js_gt (round2 (matchScore job resume)) (Num 0)"
  using assms match_results_subset [of job topN rows] match_score_match_resume by auto

text \<open>
  C2 (as the code has it). For every match that the job-match route returns, the job has at
  least one keyword and \<open>match_score\<close> is \<open>Math.round(matchScore * 100) / 100\<close>, computed in
  binary64, where \<open>matchScore\<close> is the quotient of the number of matched job keywords by
  the length of the job keyword sequence. The job keywords are the pieces longer than 3
  characters that \<open>split(' ')\<close> cuts from the lower-cased title, description and requirements
  joined by single spaces; duplicates are retained, so a matched keyword counts in the
  numerator as often as it occurs in the job keyword sequence.
\<close>

theorem match_score_is_rounded_ratio:
  assumes "m \<in> set (match_results job topN rows)"
  shows "\<exists>resume \<in> set rows.
           m = match_resume job resume \<and> jobKeywords job \<noteq> [] \<and>
           match_score m =
             Num (of_int \<lfloor>fl (fl (of_nat (length (matchingKeywords job resume)) /
                                     of_nat (length (jobKeywords job))) * 100) + 1 / 2\<rfloor> / 100) \<and>
           (\<forall>keyword. count_list (matchingKeywords job resume) keyword =
              (if keywordFound (resumeKeywords resume) keyword
               then count_list (jobKeywords job) keyword else 0))"
proof -
  from assms obtain resume where in_rows: "resume \<in> set rows"
    and m: "m = match_resume job resume"
    and pos: "js_gt (round2 (matchScore job resume)) (Num 0)"
    by (rule match_results_origin)
  let ?q = "of_nat (length (matchingKeywords job resume)) /
            of_nat (length (jobKeywords job)) :: rat"
  have ne: "jobKeywords job \<noteq> []"
  proof
    assume "jobKeywords job = []"
    with matchScore_cases [of job resume] have "matchScore job resume = NaN" by simp
    with pos show False by (simp add: round2_simps)
  qed
  with matchScore_cases [of job resume] have sc: "matchScore job resume = Num ?q"
    by simp
  have ms: "match_score m = Num (of_int \<lfloor>fl (fl ?q * 100) + 1 / 2\<rfloor> / 100)"
    unfolding m match_score_match_resume sc by (rule round2_simps(3))
  have cnt: "\<forall>keyword. count_list (matchingKeywords job resume) keyword =
      (if keywordFound (resumeKeywords resume) keyword
       then count_list (jobKeywords job) keyword else 0)"
    unfolding matchingKeywords_def by (simp only: count_list_filter) simp
  from m ne ms cnt have
    "m = match_resume job resume \<and> jobKeywords job \<noteq> [] \<and>
     match_score m = Num (of_int \<lfloor>fl (fl ?q * 100) + 1 / 2\<rfloor> / 100) \<and>
     (\<forall>keyword. count_list (matchingKeywords job resume) keyword =
        (if keywordFound (resumeKeywords resume) keyword
         then count_list (jobKeywords job) keyword else 0))"
    by (intro conjI)
  with in_rows show ?thesis by (rule bexI [rotated])
qed

theorem match_score_is_rounded_ratio_witness:
  "jobKeywords job_twice = [''python'', ''python'', ''haskell''] \<and>
   match_score (match_resume job_twice (resume_of 1 ''Python'')) = Num (67 / 100)"
proof -
  let ?r = "resume_of 1 ''Python''"
  have mem: "match_resume job_twice ?r \<in> set (match_results job_twice (Some 5) [?r])"
    unfolding match_twice by simp
  have kw: "jobKeywords job_twice = [''python'', ''python'', ''haskell'']"
    by (simp add: eval_defs)
  have q: "(of_nat (length (matchingKeywords job_twice ?r)) /
            of_nat (length (jobKeywords job_twice)) :: rat) = 2 / 3"
    by (simp add: eval_defs)
  from match_score_is_rounded_ratio [OF mem]
  obtain resume where "resume \<in> set [?r]"
    and sc: "match_score (match_resume job_twice ?r) =
      Num (of_int \<lfloor>fl (fl (of_nat (length (matchingKeywords job_twice resume)) /
        of_nat (length (jobKeywords job_twice))) * 100) + 1 / 2\<rfloor> / 100)"
    by blast
  then have "resume = ?r" by simp
  from sc have "match_score (match_resume job_twice ?r) = round2 (Num (2 / 3))"
    unfolding \<open>resume = ?r\<close> q by (simp only: round2_simps(3))
  then have "match_score (match_resume job_twice ?r) = Num (67 / 100)"
    by (simp only: round2_2_3)
  with kw show ?thesis by simp
qed

text \<open>
  C2 as the claim states it fails: with one of three job keywords matched the returned
  \<open>match_score\<close> is 0.33, not one third; and a tab does not separate two job keywords.
\<close>

theorem match_score_not_plain_ratio:
  "match_score (hd (match_results job_third (Some 5) [resume_of 1 ''Python''])) \<noteq>
     js_div (length (matchingKeywords job_third (resume_of 1 ''Python'')))
            (length (jobKeywords job_third)) \<and>
   jobKeywords job_tab = [''engineer'', ''java'' @ [CHR 0x09] @ ''python'', ''rust'']"
proof -
  have a: "match_score (hd (match_results job_third (Some 5) [resume_of 1 ''Python''])) =
      Num (33 / 100)"
    unfolding match_third
    by (simp add: match_score_match_resume matchScore_third round2_1_3 del: One_nat_def)
  have b: "js_div (length (matchingKeywords job_third (resume_of 1 ''Python'')))
      (length (jobKeywords job_third)) = Num (1 / 3)"
    using matchScore_third by (simp only: matchScore_def)
  have c: "jobKeywords job_tab = [''engineer'', ''java'' @ [CHR 0x09] @ ''python'', ''rust'']"
    by (simp add: eval_defs)
  show ?thesis unfolding a b using c by simp
qed

section \<open>Properties of the recommendation\<close>




section \<open>Properties of the search route\<close>

lemma returned_results_search_handler:
  "returned_results (search_handler tokenize db_all_err db_run_err role userId table query k) =
     (case query of
        None \<Rightarrow> []
      | Some q \<Rightarrow>
          if q = [] \<or> db_all_err \<noteq> None then []
          else search_results tokenize q (Math_min k 10) (visible_resumes role userId table))"
  by (cases query; cases db_all_err)
     (simp_all add: returned_results_def search_handler_def Let_def)

lemma length_search_results_floor:
  "length (search_results tokenize q kNum resumes) \<le>
     length (filter (\<lambda>resume. js_gt (calculateSimilarity tokenize (content resume) q)
                                 (Num (1 / 100))) resumes)"
proof -
  have "length (search_results tokenize q kNum resumes) \<le>
      length (filter (\<lambda>result. js_gt (similarity_score result) (Num (1 / 100)))
                (map (score_resume tokenize q) resumes))"
    unfolding search_results_def
    using length_slice0_num_le [of "sort_desc similarity_score
        (filter (\<lambda>result. js_gt (similarity_score result) (Num (1 / 100)))
           (map (score_resume tokenize q) resumes))" kNum]
    by (simp only: length_sort_desc)
  also have "\<dots> = length (filter (\<lambda>resume. js_gt (calculateSimilarity tokenize (content resume) q)
                                 (Num (1 / 100))) resumes)"
    by (simp only: filter_map o_def similarity_score_score_resume length_map)
  finally show ?thesis .
qed

lemma length_search_results_k:
  assumes "0 \<le> n"
  shows "length (search_results tokenize q (Math_min (Some n) 10) resumes) \<le> nat (min n 10)"
proof -
  have "0 \<le> min n 10" using assms by simp
  then show ?thesis
    unfolding search_results_def Math_min_def slice0_num_def option.case
    by (rule length_js_slice0_nonneg)
qed

lemma search_results_NaN: "search_results tokenize q (Math_min None 10) resumes = []"
  by (simp add: search_results_def Math_min_def slice0_num_NaN)

text \<open>Evaluating the ranking without unfolding the scored records.\<close>

lemma content_resume_of: "content (resume_of i text) = text"
  by (simp add: resume_of_def)

lemma resume_id_score_resume: "resume_id (score_resume tokenize q r) = row_id r"
  by (simp add: score_resume_def Let_def)

lemma row_id_resume_of: "row_id (resume_of i text) = i"
  by (simp add: resume_of_def)

lemma js_gt_irrefl: "\<not> js_gt c c"
  by (cases c) simp_all

lemma sort_desc_const:
  assumes "\<forall>x \<in> set xs. f x = c"
  shows "sort_desc f xs = xs"
  using assms
proof (induction xs)
  case Nil
  show ?case by (simp add: sort_desc_def)
next
  case (Cons x xs)
  then have ih: "sort_desc f xs = xs" by simp
  have "sort_desc f (x # xs) = insert_desc f x (sort_desc f xs)"
    by (simp add: sort_desc_def)
  also have "\<dots> = insert_desc f x xs" by (simp only: ih)
  also have "\<dots> = x # xs"
  proof (cases xs)
    case Nil
    then show ?thesis by simp
  next
    case (Cons y ys)
    with Cons.prems have "f y = c" "f x = c" by simp_all
    then show ?thesis using Cons js_gt_irrefl [of c] by simp
  qed
  finally show ?case .
qed

lemma search_results_same_score:
  assumes "\<forall>r \<in> set resumes. calculateSimilarity tokenize (content r) q = c"
    and "js_gt c (Num (1 / 100))"
  shows "search_results tokenize q kNum resumes =
           slice0_num (map (score_resume tokenize q) resumes) kNum"
proof -
  let ?scored = "map (score_resume tokenize q) resumes"
  have all: "\<forall>x \<in> set ?scored. similarity_score x = c"
    using assms(1) by (auto simp: similarity_score_score_resume)
  then have "filter (\<lambda>result. js_gt (similarity_score result) (Num (1 / 100))) ?scored = ?scored"
    using assms(2) by (simp only: filter_id_conv) simp
  moreover have "sort_desc similarity_score ?scored = ?scored"
    using all by (rule sort_desc_const)
  ultimately show ?thesis
    unfolding search_results_def by simp
qed

lemma sim_python: "calculateSimilarity wordTokenize ''Python'' ''python'' = Num 1"
  by (simp add: eval_defs)

lemma sim_java: "calculateSimilarity wordTokenize ''Java'' ''python'' = Num 0"
  by (simp add: eval_defs)

lemma sim_python_developer:
  "calculateSimilarity wordTokenize ''Python developer'' ''python'' = Num (1 / 2)"
  by (simp add: eval_defs)

lemmas ranking_simps = search_results_def similarity_score_score_resume content_resume_of
  sim_python sim_java sim_python_developer sort_desc_def slice0_num_def js_slice0_def
  Math_min_def visible_resumes_def returned_results_search_handler

text \<open>
  C4 (as the code has it). For every search request, whatever its result bound, the
  returned results list has at most as many entries as there are candidate resumes whose
  similarity score exceeds the relevance floor 0.01, and every entry has a
  \<open>similarity_score\<close> strictly greater than 0.01. When the parsed bound \<open>k\<close> is a
  non-negative integer, the list has at most \<open>k\<close> entries; when it is not a number, the
  list is empty.
\<close>

theorem search_results_bounded:
  "(\<forall>n. k = Some n \<and> 0 \<le> n \<longrightarrow>
      length (returned_results
        (search_handler tokenize db_all_err db_run_err role userId table (Some q) k)) \<le> nat n) \<and>
   (k = None \<longrightarrow>
      returned_results
        (search_handler tokenize db_all_err db_run_err role userId table (Some q) k) = []) \<and>
   length (returned_results
     (search_handler tokenize db_all_err db_run_err role userId table (Some q) k))
     \<le> length (filter (\<lambda>resume. js_gt (calculateSimilarity tokenize (content resume) q)
                                   (Num (1 / 100)))
                  (visible_resumes role userId table)) \<and>
   (\<forall>r \<in> set (returned_results
     (search_handler tokenize db_all_err db_run_err role userId table (Some q) k)).
      js_gt (similarity_score r) (Num (1 / 100)))"
proof (cases "q = [] \<or> db_all_err \<noteq> None")
  case True
  then have eq: "returned_results
      (search_handler tokenize db_all_err db_run_err role userId table (Some q) k) = []"
    by (simp add: returned_results_search_handler)
  show ?thesis unfolding eq by simp
next
  case False
  let ?vis = "visible_resumes role userId table"
  let ?res = "search_results tokenize q (Math_min k 10) ?vis"
  from False have eq: "returned_results
      (search_handler tokenize db_all_err db_run_err role userId table (Some q) k) = ?res"
    by (simp add: returned_results_search_handler)
  have a: "\<forall>n. k = Some n \<and> 0 \<le> n \<longrightarrow> length ?res \<le> nat n"
  proof (intro allI impI)
    fix n assume n: "k = Some n \<and> 0 \<le> n"
    then have "length (search_results tokenize q (Math_min (Some n) 10) ?vis) \<le> nat (min n 10)"
      by (intro length_search_results_k) simp
    with n show "length ?res \<le> nat n" by simp
  qed
  have n: "k = None \<longrightarrow> ?res = []"
    by (simp add: search_results_NaN)
  have b: "length ?res \<le> length (filter (\<lambda>resume.
      js_gt (calculateSimilarity tokenize (content resume) q) (Num (1 / 100))) ?vis)"
    by (rule length_search_results_floor)
  have c: "\<forall>r \<in> set ?res. js_gt (similarity_score r) (Num (1 / 100))"
    using search_results_subset [of tokenize q "Math_min k 10" ?vis] by blast
  show ?thesis unfolding eq using a n b c by (intro conjI)
qed

lemma search_two_candidates:
  "returned_results
     (search_handler wordTokenize None None ''recruiter'' 7
        [resume_of 1 ''Python'', resume_of 2 ''Java'', resume_of 3 ''Python developer'']
        (Some ''python'') (Some 1)) =
   [score_resume wordTokenize ''python'' (resume_of 1 ''Python'')]"
  by (simp add: ranking_simps)

theorem search_results_bounded_witness:
  "length (returned_results
     (search_handler wordTokenize None None ''recruiter'' 7
        [resume_of 1 ''Python'', resume_of 2 ''Java'', resume_of 3 ''Python developer'']
        (Some ''python'') (Some 1))) = 1 \<and>
   length (filter (\<lambda>resume. js_gt (calculateSimilarity wordTokenize (content resume) ''python'')
                                 (Num (1 / 100)))
     (visible_resumes ''recruiter'' 7
        [resume_of 1 ''Python'', resume_of 2 ''Java'', resume_of 3 ''Python developer''])) = 2 \<and>
   js_gt (similarity_score (score_resume wordTokenize ''python'' (resume_of 1 ''Python'')))
         (Num (1 / 100))"
proof -
  have two: "length (filter (\<lambda>resume.
        js_gt (calculateSimilarity wordTokenize (content resume) ''python'') (Num (1 / 100)))
     (visible_resumes ''recruiter'' 7
        [resume_of 1 ''Python'', resume_of 2 ''Java'', resume_of 3 ''Python developer''])) = 2"
    by (simp add: visible_resumes_def content_resume_of sim_python sim_java
          sim_python_developer)
  from search_results_bounded [of "Some 1" wordTokenize None None "''recruiter''" 7
      "[resume_of 1 ''Python'', resume_of 2 ''Java'', resume_of 3 ''Python developer'']"
      "''python''"]
  show ?thesis unfolding search_two_candidates two by simp
qed

text \<open>
  C4 as the claim states it fails: for the bound \<open>k = -1\<close>, which admits no entry, and two
  qualifying resumes the route returns one entry.
\<close>

theorem search_results_exceed_negative_k:
  "map resume_id (returned_results
     (search_handler wordTokenize None None ''recruiter'' 7
        [resume_of 1 ''Python'', resume_of 2 ''Python'']
        (Some ''python'') (Some (- 1)))) = [1] \<and>
   \<not> length (returned_results
     (search_handler wordTokenize None None ''recruiter'' 7
        [resume_of 1 ''Python'', resume_of 2 ''Python'']
        (Some ''python'') (Some (- 1)))) \<le> nat (- 1)"
proof -
  have "returned_results
     (search_handler wordTokenize None None ''recruiter'' 7
        [resume_of 1 ''Python'', resume_of 2 ''Python'']
        (Some ''python'') (Some (- 1))) =
     [score_resume wordTokenize ''python'' (resume_of 1 ''Python'')]"
    by (simp add: ranking_simps)
  then show ?thesis
    by (simp add: resume_id_score_resume row_id_resume_of)
qed

text \<open>
  For a bound that is a non-negative integer or not a number, the cap of 10 holds.
\<close>

lemma search_results_capped:
  assumes "k = None \<or> (\<exists>n. k = Some n \<and> 0 \<le> n)"
  shows "length (returned_results
           (search_handler tokenize db_all_err db_run_err role userId table query k)) \<le> 10"
proof -
  have cap: "length (search_results tokenize q (Math_min k 10) resumes) \<le> 10" for q resumes
  proof (cases k)
    case None
    then show ?thesis by (simp add: search_results_NaN)
  next
    case (Some n)
    with assms have "0 \<le> n" by simp
    then have "length (search_results tokenize q (Math_min (Some n) 10) resumes) \<le> nat (min n 10)"
      by (rule length_search_results_k)
    then show ?thesis unfolding Some by simp
  qed
  show ?thesis
  proof (cases query)
    case None
    then show ?thesis by (simp add: returned_results_search_handler)
  next
    case (Some q)
    then show ?thesis using cap [of q "visible_resumes role userId table"]
      by (simp add: returned_results_search_handler)
  qed
qed

text \<open>
  C10, the code at the failing input: for the bound \<open>k = -1\<close> and twelve qualifying resumes,
  \<open>Math.min(parseInt(k), 10)\<close> is \<open>-1\<close> and \<open>slice(0, -1)\<close> drops only the last result, so
  the route returns eleven entries, one more than its limit of 10.
\<close>

theorem search_cap_exceeded_at_negative_k:
  "length (returned_results
     (search_handler wordTokenize None None ''recruiter'' 7
        (resumes_upto 12 ''Python developer'') (Some ''python'') (Some (- 1)))) = 11"
proof -
  let ?rs = "resumes_upto 12 ''Python developer''"
  have same: "\<forall>r \<in> set ?rs. calculateSimilarity wordTokenize (content r) ''python'' = Num (1 / 2)"
    by (auto simp: resumes_upto_def content_resume_of sim_python_developer)
  have gt: "js_gt (Num (1 / 2)) (Num (1 / 100))" by simp
  have len: "length ?rs = 12" by (simp add: resumes_upto_def)
  have "returned_results
     (search_handler wordTokenize None None ''recruiter'' 7 ?rs (Some ''python'') (Some (- 1))) =
     search_results wordTokenize ''python'' (Math_min (Some (- 1)) 10) ?rs"
    by (simp add: returned_results_search_handler visible_resumes_def)
  also have "\<dots> = slice0_num (map (score_resume wordTokenize ''python'') ?rs)
                      (Math_min (Some (- 1)) 10)"
    using same gt by (rule search_results_same_score)
  finally show ?thesis
    by (simp add: Math_min_def slice0_num_def js_slice0_def len)
qed

section \<open>Properties of the snippets\<close>

lemma dropWhile_fixed: "xs = [] \<or> \<not> P (hd xs) \<Longrightarrow> dropWhile P xs = xs"
  by (cases xs) auto

lemma dropWhile_head: "dropWhile P xs = [] \<or> \<not> P (hd (dropWhile P xs))"
  using hd_dropWhile [of P xs] by blast

lemma rev_dropWhile_rev_head:
  assumes "u = [] \<or> \<not> P (hd u)"
  shows "rev (dropWhile P (rev u)) = [] \<or> \<not> P (hd (rev (dropWhile P (rev u))))"
proof -
  have "rev u = takeWhile P (rev u) @ dropWhile P (rev u)" by simp
  then have "rev (rev u) = rev (takeWhile P (rev u) @ dropWhile P (rev u))" by simp
  then have u: "u = rev (dropWhile P (rev u)) @ rev (takeWhile P (rev u))"
    by (simp only: rev_rev_ident rev_append)
  show ?thesis
  proof (cases "rev (dropWhile P (rev u)) = []")
    case False
    then have "hd u = hd (rev (dropWhile P (rev u)))"
      using u by (metis hd_append2)
    moreover from False u have "u \<noteq> []" by auto
    ultimately show ?thesis using assms by simp
  qed simp
qed

lemma trim_trim: "trim (trim s) = trim s"
proof -
  let ?u = "dropWhile isSpace s"
  let ?t = "rev (dropWhile isSpace (rev ?u))"
  have "?t = [] \<or> \<not> isSpace (hd ?t)"
    by (rule rev_dropWhile_rev_head) (rule dropWhile_head)
  then have a: "dropWhile isSpace ?t = ?t" by (rule dropWhile_fixed)
  have b: "dropWhile isSpace (rev ?t) = rev ?t"
    by (rule dropWhile_fixed) (simp only: rev_rev_ident dropWhile_head)
  show ?thesis
    unfolding trim_def a b by simp
qed

lemma extractSnippets_subset:
  "set (extractSnippets doc query k) \<subseteq>
     {trim sentence | sentence. 10 < length (trim sentence)}"
proof
  fix s assume "s \<in> set (extractSnippets doc query k)"
  then obtain scored :: "(string \<times> jsnum) list" and sentences :: "string list" and g
    where s: "s \<in> set (map fst (js_slice0 (sort_desc snd scored) k))"
      and scored: "scored = map (\<lambda>sentence. (trim sentence, g sentence)) sentences"
      and sentences: "\<forall>sentence \<in> set sentences. 10 < length (trim sentence)"
    unfolding extractSnippets_def Let_def by force
  from s obtain p where "p \<in> set (js_slice0 (sort_desc snd scored) k)" and "s = fst p"
    by auto
  then have "p \<in> set scored"
    using set_js_slice0 [of "sort_desc snd scored" k] by (auto simp: set_sort_desc)
  with scored obtain sentence where "sentence \<in> set sentences" and "p = (trim sentence, g sentence)"
    by auto
  with sentences \<open>s = fst p\<close> show "s \<in> {trim sentence | sentence. 10 < length (trim sentence)}"
    by auto
qed

lemma length_extractSnippets:
  assumes "0 \<le> k"
  shows "length (extractSnippets doc query k) \<le> nat k"
proof -
  have "length (filter P (map f (js_slice0 xs k))) \<le> nat k"
    for P :: "string \<Rightarrow> bool" and f :: "string \<times> jsnum \<Rightarrow> string" and xs
  proof -
    have "length (filter P (map f (js_slice0 xs k))) \<le> length (map f (js_slice0 xs k))"
      by (rule length_filter_le)
    also have "\<dots> = length (js_slice0 xs k)" by simp
    also have "\<dots> \<le> nat k" using assms by (rule length_js_slice0_nonneg)
    finally show ?thesis .
  qed
  then show ?thesis
    unfolding extractSnippets_def Let_def by blast
qed

text \<open>
  C9. For every document text, query string and requested count \<open>k\<close> (a count, so not
  negative), \<open>extractSnippets\<close> returns at most \<open>k\<close> snippets, and every returned snippet
  has at least 10 characters after trimming (the code keeps a sentence only if it has more
  than 10).
\<close>

theorem extractSnippets_bounded:
  assumes "0 \<le> k"
  shows "length (extractSnippets doc query k) \<le> nat k \<and>
         (\<forall>s \<in> set (extractSnippets doc query k). 10 \<le> length (trim s))"
proof
  show "length (extractSnippets doc query k) \<le> nat k"
    using assms by (rule length_extractSnippets)
  show "\<forall>s \<in> set (extractSnippets doc query k). 10 \<le> length (trim s)"
  proof
    fix s assume "s \<in> set (extractSnippets doc query k)"
    then obtain sentence where "s = trim sentence" and "10 < length (trim sentence)"
      using extractSnippets_subset [of doc query k] by auto
    then show "10 \<le> length (trim s)" by (simp add: trim_trim)
  qed
qed

lemma snippets_example:
  "extractSnippets ''I am a Python developer. Short. I like Java and cats a lot! ok''
     ''python java'' 2 = [''I am a Python developer'', ''I like Java and cats a lot'']"
  by (simp add: eval_defs)

theorem extractSnippets_bounded_witness:
  "(0::int) \<le> 2 \<and>
   length (extractSnippets ''I am a Python developer. Short. I like Java and cats a lot! ok''
     ''python java'' 2) = 2 \<and>
   10 \<le> length (trim ''I am a Python developer'')"
proof -
  have h: "(0::int) \<le> 2" by simp
  from extractSnippets_bounded [OF h,
      of "''I am a Python developer. Short. I like Java and cats a lot! ok''" "''python java''"]
  show ?thesis unfolding snippets_example by simp
qed

section \<open>Failure of the audit write\<close>

lemma map_filter_Nil_iff: "List.map_filter f xs = [] \<longleftrightarrow> (\<forall>x \<in> set xs. f x = None)"
  by (induction xs) (auto simp: map_filter_simps split: option.splits)

lemma map_filter_hd:
  "List.map_filter f xs = e # es \<Longrightarrow> \<exists>x \<in> set xs. f x = Some e"
  by (induction xs) (auto simp: map_filter_simps split: option.splits)

lemma logged_match_handler:
  assumes "mrole = ''recruiter'' \<or> mrole = ''admin''"
  shows "logged (match_handler mrole (Inr (Some job)) None insert_err rows top_n) =
     (case List.map_filter (\<lambda>m. insert_err (resume_id m))
             (match_results job (Math_min top_n 20) rows) of
        [] \<Rightarrow> []
      | err # _ \<Rightarrow> [''Failed to store matches: '' @ err])"
  using assms by (auto simp: match_handler_def Let_def)

text \<open>
  C8. When scoring succeeds (the query is present, the caller may match, the job exists and
  the reads succeed) and the write that follows fails (the insert into \<open>search_queries\<close> of
  the search route, or an insert into \<open>job_matches\<close> of the job-match route), the request
  is answered with the full scored list, the same answer as when the write succeeds; the
  failure is logged, and nothing is logged when no write fails.
\<close>

theorem audit_write_failure_not_fatal:
  assumes "q \<noteq> []" and "mrole = ''recruiter'' \<or> mrole = ''admin''"
  shows "response (search_handler tokenize None (Some err) role userId table (Some q) k) =
           OkResponse \<lparr> body_query = q,
             results = search_results tokenize q (Math_min k 10)
                         (visible_resumes role userId table),
             total_found = length (search_results tokenize q (Math_min k 10)
                         (visible_resumes role userId table)) \<rparr> \<and>
         response (search_handler tokenize None (Some err) role userId table (Some q) k) =
           response (search_handler tokenize None None role userId table (Some q) k) \<and>
         logged (search_handler tokenize None (Some err) role userId table (Some q) k) =
           [''Failed to cache query: '' @ err] \<and>
         response (match_handler mrole (Inr (Some job)) None insert_err rows top_n) =
           OkResponse \<lparr> body_job_id = job_id job, job_title = title job,
             matches = match_results job (Math_min top_n 20) rows,
             total_matches = length (match_results job (Math_min top_n 20) rows) \<rparr> \<and>
         response (match_handler mrole (Inr (Some job)) None insert_err rows top_n) =
           response (match_handler mrole (Inr (Some job)) None (\<lambda>_. None) rows top_n) \<and>
         ((\<exists>m \<in> set (match_results job (Math_min top_n 20) rows).
              insert_err (resume_id m) \<noteq> None) \<longrightarrow>
          (\<exists>m \<in> set (match_results job (Math_min top_n 20) rows). \<exists>e.
              insert_err (resume_id m) = Some e \<and>
              logged (match_handler mrole (Inr (Some job)) None insert_err rows top_n) =
                [''Failed to store matches: '' @ e])) \<and>
         ((\<forall>m \<in> set (match_results job (Math_min top_n 20) rows).
              insert_err (resume_id m) = None) \<longrightarrow>
          logged (match_handler mrole (Inr (Some job)) None insert_err rows top_n) = [])"
proof -
  let ?ms = "match_results job (Math_min top_n 20) rows"
  let ?fails = "List.map_filter (\<lambda>m. insert_err (resume_id m)) ?ms"
  have s1: "response (search_handler tokenize None w role userId table (Some q) k) =
           OkResponse \<lparr> body_query = q,
             results = search_results tokenize q (Math_min k 10)
                         (visible_resumes role userId table),
             total_found = length (search_results tokenize q (Math_min k 10)
                         (visible_resumes role userId table)) \<rparr>" for w
    using assms(1) by (simp add: search_handler_def Let_def)
  have s2: "logged (search_handler tokenize None (Some err) role userId table (Some q) k) =
           [''Failed to cache query: '' @ err]"
    using assms(1) by (simp add: search_handler_def Let_def)
  have m1: "response (match_handler mrole (Inr (Some job)) None ie rows top_n) =
           OkResponse \<lparr> body_job_id = job_id job, job_title = title job,
             matches = match_results job (Math_min top_n 20) rows,
             total_matches = length (match_results job (Math_min top_n 20) rows) \<rparr>" for ie
    using assms(2) by (auto simp: match_handler_def Let_def)
  note lg = logged_match_handler [OF assms(2), of job insert_err rows top_n]
  have m2: "(\<exists>m \<in> set ?ms. insert_err (resume_id m) \<noteq> None) \<longrightarrow>
      (\<exists>m \<in> set ?ms. \<exists>e. insert_err (resume_id m) = Some e \<and>
         logged (match_handler mrole (Inr (Some job)) None insert_err rows top_n) =
           [''Failed to store matches: '' @ e])"
  proof
    assume "\<exists>m \<in> set ?ms. insert_err (resume_id m) \<noteq> None"
    then have "?fails \<noteq> []" by (simp add: map_filter_Nil_iff)
    then obtain e es where fails: "?fails = e # es" by (cases ?fails) auto
    from map_filter_hd [OF fails] obtain m where "m \<in> set ?ms"
      and "insert_err (resume_id m) = Some e" by blast
    moreover have "logged (match_handler mrole (Inr (Some job)) None insert_err rows top_n) =
        [''Failed to store matches: '' @ e]"
      unfolding lg fails by simp
    ultimately show "\<exists>m \<in> set ?ms. \<exists>e. insert_err (resume_id m) = Some e \<and>
        logged (match_handler mrole (Inr (Some job)) None insert_err rows top_n) =
          [''Failed to store matches: '' @ e]" by blast
  qed
  have m3: "(\<forall>m \<in> set ?ms. insert_err (resume_id m) = None) \<longrightarrow>
      logged (match_handler mrole (Inr (Some job)) None insert_err rows top_n) = []"
  proof
    assume "\<forall>m \<in> set ?ms. insert_err (resume_id m) = None"
    then have "?fails = []" by (simp add: map_filter_Nil_iff)
    then show "logged (match_handler mrole (Inr (Some job)) None insert_err rows top_n) = []"
      unfolding lg by simp
  qed
  show ?thesis
    unfolding s1 m1 using s2 m2 m3 by (intro conjI refl)
qed

theorem audit_write_failure_not_fatal_witness:
  "map resume_id (returned_results (search_handler wordTokenize None (Some ''SQLITE_BUSY'')
       ''user'' 1 [resume_of 1 ''Python developer''] (Some ''python'') (Some 3))) = [1] \<and>
   logged (search_handler wordTokenize None (Some ''SQLITE_BUSY'')
       ''user'' 1 [resume_of 1 ''Python developer''] (Some ''python'') (Some 3)) =
     [''Failed to cache query: SQLITE_BUSY''] \<and>
   returned_matches (match_handler ''recruiter'' (Inr (Some job_third)) None
       (\<lambda>_. Some ''SQLITE_BUSY'') [resume_of 1 ''Python''] (Some 5)) =
     [match_resume job_third (resume_of 1 ''Python'')] \<and>
   logged (match_handler ''recruiter'' (Inr (Some job_third)) None
       (\<lambda>_. Some ''SQLITE_BUSY'') [resume_of 1 ''Python''] (Some 5)) =
     [''Failed to store matches: SQLITE_BUSY'']"
proof -
  have a: "''python'' \<noteq> []" by simp
  have b: "''recruiter'' = ''recruiter'' \<or> ''recruiter'' = ''admin''" by simp
  have c: "map resume_id (search_results wordTokenize ''python'' (Math_min (Some 3) 10)
      (visible_resumes ''user'' 1 [resume_of 1 ''Python developer''])) = [1]"
    by (simp add: ranking_simps resume_of_def resume_id_score_resume)
  have d: "match_results job_third (Math_min (Some 5) 20) [resume_of 1 ''Python''] =
      [match_resume job_third (resume_of 1 ''Python'')]"
    using match_third by (simp add: Math_min_def)
  note inst = audit_write_failure_not_fatal [OF a b, of wordTokenize "''SQLITE_BUSY''" "''user''" 1
      "[resume_of 1 ''Python developer'']" "Some 3" job_third "\<lambda>_. Some ''SQLITE_BUSY''"
      "[resume_of 1 ''Python'']" "Some 5"]
  from inst c have s: "map resume_id (returned_results (search_handler wordTokenize None
       (Some ''SQLITE_BUSY'') ''user'' 1 [resume_of 1 ''Python developer'']
       (Some ''python'') (Some 3))) = [1]"
    by (simp add: returned_results_def)
  from inst have l: "logged (search_handler wordTokenize None (Some ''SQLITE_BUSY'')
       ''user'' 1 [resume_of 1 ''Python developer''] (Some ''python'') (Some 3)) =
     [''Failed to cache query: SQLITE_BUSY'']"
    by simp
  from inst d have m: "returned_matches (match_handler ''recruiter'' (Inr (Some job_third)) None
       (\<lambda>_. Some ''SQLITE_BUSY'') [resume_of 1 ''Python''] (Some 5)) =
     [match_resume job_third (resume_of 1 ''Python'')]"
    by (simp add: returned_matches_def)
  from inst have "(\<exists>m \<in> set (match_results job_third (Math_min (Some 5) 20)
        [resume_of 1 ''Python'']). (Some ''SQLITE_BUSY'' :: string option) \<noteq> None) \<longrightarrow>
      (\<exists>m \<in> set (match_results job_third (Math_min (Some 5) 20) [resume_of 1 ''Python'']).
         \<exists>e. Some ''SQLITE_BUSY'' = Some e \<and>
           logged (match_handler ''recruiter'' (Inr (Some job_third)) None
             (\<lambda>_. Some ''SQLITE_BUSY'') [resume_of 1 ''Python''] (Some 5)) =
           [''Failed to store matches: '' @ e])"
    by blast
  then have g: "logged (match_handler ''recruiter'' (Inr (Some job_third)) None
       (\<lambda>_. Some ''SQLITE_BUSY'') [resume_of 1 ''Python''] (Some 5)) =
     [''Failed to store matches: SQLITE_BUSY'']"
    unfolding d by simp
  from s l m g show ?thesis by (intro conjI)
qed

section \<open>Global replacement leaves no match\<close>



lemma charAt_Nil: "charAt [] i = None"
  by (simp add: charAt_def)












section \<open>The phone pattern\<close>










section \<open>The email pattern\<close>
















section \<open>Redaction of the fetched resume\<close>













text \<open>A recruiter receives the stored content as it is.\<close>

lemma fetch_resume_recruiter:
  "fst (get_resume_handler ''recruiter'' 7 None [resume_contact] 1) =
     \<lparr> response = OkResponse
         \<lparr> body_id = 1, body_filename = ''cv.txt'',
           body_content = ''Contact me at jane@example.com or 555-123-4567'',
           body_uploader = ''Jane'' \<rparr>,
       logged = [] \<rparr>"
  by (simp add: get_resume_handler_def resume_contact_def resume_of_def)

text \<open>
  The word boundaries belong to the patterns: an address that is followed by a word
  character is no match of the email pattern, and a run of eleven digits holds no match of
  the phone pattern, so both stay as they are.
\<close>

lemma redactPII_no_boundary:
  "redactPII ''jane@example.com_'' = ''jane@example.com_''"
  "redactPII ''12345678901'' = ''12345678901''"
  by code_simp+

end
